theory Spec2Isabelle
  imports Complex_Main "HOL-Library.Word"
begin

section \<open>The estimate handler of app/api/estimate/route.ts\<close>

text \<open>
  The repository has one source file, the route handler \<^verbatim>\<open>POST\<close> of
  \<^verbatim>\<open>app/api/estimate/route.ts\<close>. The handler reads a multipart form, checks that
  images were uploaded and that the credential is configured, sends the images to the inference
  API, takes an estimate from the reply (or from a static table when the reply is not OK),
  prices it and answers with JSON. The embedding below follows the handler line by line.

  What the handler receives from outside is an argument of the model:
  \<^item> the request, by what \<^verbatim>\<open>req.formData()\<close> does with it;
  \<^item> the environment variable \<^verbatim>\<open>OPENAI_API_KEY\<close>;
  \<^item> the outcome of the one \<^verbatim>\<open>fetch\<close> call, including what \<^verbatim>\<open>r.json()\<close> yields;
  \<^item> the built-in functions of the JavaScript platform the handler calls
    (\<^verbatim>\<open>JSON.parse\<close>, the conversions between strings and numbers, base64);
  \<^item> the three exports of \<^verbatim>\<open>@/lib/pricing\<close>, a module that is not among the sources.
\<close>

subsection \<open>JavaScript numbers\<close>

text \<open>
  A JavaScript number is a finite number, \<^verbatim>\<open>NaN\<close>, \<^verbatim>\<open>Infinity\<close> or \<^verbatim>\<open>-Infinity\<close>. A
  finite number is given by the real it stands for; a decimal literal of the source, such as
  \<^verbatim>\<open>0.15\<close>, stands for the double it denotes. The product and the quotient of two finite
  numbers are those of IEEE 754 arithmetic, which rounds and may overflow: they are functions of
  the platform (below), and the model never computes them. The sign of zero is not modelled (the
  handler never divides by a computed value, so it cannot observe it).
\<close>

datatype jsnum = Num real | NaN | Infinity | NegInfinity

text \<open>\<^verbatim>\<open>Math.max\<close> and \<^verbatim>\<open>Math.min\<close> of two numbers: \<^verbatim>\<open>NaN\<close> if either is.\<close>

fun Math_max :: "jsnum \<Rightarrow> jsnum \<Rightarrow> jsnum" where
  "Math_max NaN b = NaN"
| "Math_max a NaN = NaN"
| "Math_max Infinity b = Infinity"
| "Math_max a Infinity = Infinity"
| "Math_max NegInfinity b = b"
| "Math_max a NegInfinity = a"
| "Math_max (Num x) (Num y) = Num (max x y)"

fun Math_min :: "jsnum \<Rightarrow> jsnum \<Rightarrow> jsnum" where
  "Math_min NaN b = NaN"
| "Math_min a NaN = NaN"
| "Math_min NegInfinity b = NegInfinity"
| "Math_min a NegInfinity = NegInfinity"
| "Math_min Infinity b = b"
| "Math_min a Infinity = a"
| "Math_min (Num x) (Num y) = Num (min x y)"

text \<open>\<^verbatim>\<open>Math.round\<close>: the nearest integer, a tie going up.\<close>

fun Math_round :: "jsnum \<Rightarrow> jsnum" where
  "Math_round (Num x) = Num (of_int \<lfloor>x + 1 / 2\<rfloor>)"
| "Math_round a = a"

text \<open>A number is truthy unless it is zero or \<^verbatim>\<open>NaN\<close>.\<close>

fun truthy_num :: "jsnum \<Rightarrow> bool" where
  "truthy_num (Num x) = (if x = 0 then False else True)"
| "truthy_num NaN = False"
| "truthy_num a = True"

subsection \<open>JavaScript values\<close>

text \<open>
  The values \<^verbatim>\<open>r.json()\<close> and \<^verbatim>\<open>JSON.parse\<close> produce. An object is the list of its own
  properties; a property is read at the first binding of its key. Strings are lists of 8-bit
  characters.
\<close>

datatype json =
    JNull
  | JBool bool
  | JNumber jsnum
  | JString string
  | JArray "json list"
  | JObject "(string \<times> json) list"

text \<open>
  The values a variable the handler declares as \<^verbatim>\<open>number\<close> holds at run time. Reading
  \<^verbatim>\<open>table[key]\<close> from an object literal yields \<^verbatim>\<open>undefined\<close> for an unknown key, the
  number for a key of the literal, and for a key that names a member of \<^verbatim>\<open>Object.prototype\<close>
  the inherited member: a function, or the prototype itself for \<^verbatim>\<open>__proto__\<close>.
\<close>

datatype jsval = Undefined | Number jsnum | Inherited string

fun truthy_val :: "jsval \<Rightarrow> bool" where
  "truthy_val Undefined = False"
| "truthy_val (Number n) = truthy_num n"
| "truthy_val (Inherited k) = True"

text \<open>
  The conversion to a number that \<^verbatim>\<open>*\<close> applies to its operands: a function and a plain
  object both convert to \<^verbatim>\<open>NaN\<close>.
\<close>

fun to_number :: "jsval \<Rightarrow> jsnum" where
  "to_number Undefined = NaN"
| "to_number (Number n) = n"
| "to_number (Inherited k) = NaN"

text \<open>The built-in functions of the platform that the handler calls.\<close>

record platform =
  JSON_parse :: "string \<Rightarrow> json option"
  StringToNumber :: "string \<Rightarrow> jsnum"
  NumberToString :: "jsnum \<Rightarrow> string"
  base64 :: "8 word list \<Rightarrow> string"
  double_mul :: "real \<Rightarrow> real \<Rightarrow> jsnum"
  double_div :: "real \<Rightarrow> real \<Rightarrow> jsnum"

text \<open>
  \<^verbatim>\<open>JSON_parse\<close> is \<^verbatim>\<open>JSON.parse\<close> on a string, \<open>None\<close> where it throws;
  \<^verbatim>\<open>StringToNumber\<close> is \<^verbatim>\<open>Number\<close> on a string, \<^verbatim>\<open>NumberToString\<close> is \<^verbatim>\<open>String\<close> on a
  number, \<^verbatim>\<open>base64\<close> is \<^verbatim>\<open>Buffer.from(bytes).toString("base64")\<close>; \<^verbatim>\<open>double_mul\<close> and
  \<^verbatim>\<open>double_div\<close> are the IEEE 754 product and quotient of two finite numbers, rounded to a
  double or overflowing to an infinity.
\<close>

text \<open>
  The operator \<^verbatim>\<open>*\<close> on numbers: \<^verbatim>\<open>NaN\<close> if an operand is, the platform's product of two
  finite numbers, and with an infinite operand the infinity of the product of the signs, or
  \<^verbatim>\<open>NaN\<close> when the other operand is zero.
\<close>

fun js_sign :: "jsnum \<Rightarrow> int" where
  "js_sign (Num x) = (if x = 0 then 0 else if 0 < x then 1 else -1)"
| "js_sign NaN = 0"
| "js_sign Infinity = 1"
| "js_sign NegInfinity = -1"

fun js_mul :: "platform \<Rightarrow> jsnum \<Rightarrow> jsnum \<Rightarrow> jsnum" where
  "js_mul pf NaN b = NaN"
| "js_mul pf a NaN = NaN"
| "js_mul pf (Num x) (Num y) = double_mul pf x y"
| "js_mul pf a b =
     (if js_sign a * js_sign b = 0 then NaN
      else if 0 < js_sign a * js_sign b then Infinity else NegInfinity)"

text \<open>
  The operator \<^verbatim>\<open>/\<close> on numbers: \<^verbatim>\<open>NaN\<close> if an operand is, the platform's quotient of two
  finite numbers, zero for a finite number over an infinity, an infinity for an infinity over a
  finite number (a zero divisor taken as \<^verbatim>\<open>+0\<close>), and \<^verbatim>\<open>NaN\<close> for two infinities.
\<close>

fun js_div :: "platform \<Rightarrow> jsnum \<Rightarrow> jsnum \<Rightarrow> jsnum" where
  "js_div pf NaN b = NaN"
| "js_div pf a NaN = NaN"
| "js_div pf (Num x) (Num y) = double_div pf x y"
| "js_div pf (Num x) b = Num 0"
| "js_div pf Infinity (Num y) = (if 0 \<le> y then Infinity else NegInfinity)"
| "js_div pf NegInfinity (Num y) = (if 0 \<le> y then NegInfinity else Infinity)"
| "js_div pf a b = NaN"

text \<open>
  \<^verbatim>\<open>String(v)\<close>: an array joins its elements with commas, \<^verbatim>\<open>null\<close> elements as the empty
  string; a plain object is \<^verbatim>\<open>[object Object]\<close>.
\<close>

fun ToString :: "(jsnum \<Rightarrow> string) \<Rightarrow> json \<Rightarrow> string"
  and join_elements :: "(jsnum \<Rightarrow> string) \<Rightarrow> json list \<Rightarrow> string" where
  "ToString n2s JNull = ''null''"
| "ToString n2s (JBool b) = (if b then ''true'' else ''false'')"
| "ToString n2s (JNumber n) = n2s n"
| "ToString n2s (JString s) = s"
| "ToString n2s (JArray xs) = join_elements n2s xs"
| "ToString n2s (JObject kvs) = ''[object Object]''"
| "join_elements n2s [] = []"
| "join_elements n2s [JNull] = []"
| "join_elements n2s [x] = ToString n2s x"
| "join_elements n2s (JNull # xs) = '','' @ join_elements n2s xs"
| "join_elements n2s (x # xs) = ToString n2s x @ '','' @ join_elements n2s xs"

text \<open>\<^verbatim>\<open>Number(v)\<close>: an array or object converts through its string.\<close>

fun ToNumber :: "platform \<Rightarrow> json \<Rightarrow> jsnum" where
  "ToNumber pf JNull = Num 0"
| "ToNumber pf (JBool b) = (if b then Num 1 else Num 0)"
| "ToNumber pf (JNumber n) = n"
| "ToNumber pf (JString s) = StringToNumber pf s"
| "ToNumber pf v = StringToNumber pf (ToString (NumberToString pf) v)"

fun truthy :: "json \<Rightarrow> bool" where
  "truthy JNull = False"
| "truthy (JBool b) = b"
| "truthy (JNumber n) = truthy_num n"
| "truthy (JString s) = (if s = [] then False else True)"
| "truthy v = True"

text \<open>
  \<^verbatim>\<open>v.name\<close> on a value other than \<^verbatim>\<open>null\<close>, for a name no prototype defines (the handler
  reads \<^verbatim>\<open>choices\<close>, \<^verbatim>\<open>message\<close>, \<^verbatim>\<open>content\<close>, \<^verbatim>\<open>area_sqft\<close>, \<^verbatim>\<open>complexity\<close> and
  \<^verbatim>\<open>notes\<close>); \<open>None\<close> is \<^verbatim>\<open>undefined\<close>.
\<close>

fun get_property :: "json \<Rightarrow> string \<Rightarrow> json option" where
  "get_property (JObject kvs) name = map_of kvs name"
| "get_property v name = None"

text \<open>\<^verbatim>\<open>v[0]\<close> on a value other than \<^verbatim>\<open>null\<close>: a string yields its first character.\<close>

fun get_index0 :: "json \<Rightarrow> json option" where
  "get_index0 (JArray []) = None"
| "get_index0 (JArray (x # xs)) = Some x"
| "get_index0 (JString []) = None"
| "get_index0 (JString (c # cs)) = Some (JString [c])"
| "get_index0 (JObject kvs) = map_of kvs ''0''"
| "get_index0 v = None"

text \<open>
  One link \<^verbatim>\<open>?.\<close> of an optional chain: \<^verbatim>\<open>undefined\<close> when the value before it is
  \<^verbatim>\<open>undefined\<close> or \<^verbatim>\<open>null\<close>.
\<close>

fun optional :: "json option \<Rightarrow> (json \<Rightarrow> json option) \<Rightarrow> json option" where
  "optional None f = None"
| "optional (Some JNull) f = None"
| "optional (Some v) f = f v"

text \<open>\<^verbatim>\<open>v || d\<close> for a value that may be \<^verbatim>\<open>undefined\<close>.\<close>

fun or_else :: "json option \<Rightarrow> json \<Rightarrow> json" where
  "or_else None d = d"
| "or_else (Some v) d = (if truthy v then v else d)"

subsection \<open>The request, the environment and the inference API\<close>

text \<open>
  An uploaded file: its declared media type and its bytes. The handler declares
  \<^verbatim>\<open>formData.getAll("images")\<close> as \<^verbatim>\<open>File[]\<close>, and the model covers the forms in which
  every part named \<^verbatim>\<open>images\<close> is a file. The cast checks nothing at run time: a form with a
  text part of that name is not represented here (it passes line 16, and with the credential
  set the loop of line 27 throws because a string has no \<^verbatim>\<open>arrayBuffer\<close>, so it is answered
  with status 500 and no call is made).
\<close>

record uploaded_file =
  file_type :: string
  file_bytes :: "8 word list"

text \<open>What \<^verbatim>\<open>formData.get("service")\<close> yields when the field is there: a string or a file.\<close>

datatype form_entry = TextEntry string | FileEntry uploaded_file

record form_data =
  get_service :: "form_entry option"
  getAll_images :: "uploaded_file list"

text \<open>A request: \<^verbatim>\<open>req.formData()\<close> rejects with an error message, or resolves to the form.\<close>

datatype request = BodyRejected string | FormData form_data

text \<open>The call to \<^verbatim>\<open>fetch\<close>, as the handler builds it.\<close>

record fetch_call =
  url :: string
  http_method :: string
  content_type :: string
  authorization :: string
  model_name :: string
  system_content :: string
  user_text :: string
  image_urls :: "string list"
  temperature :: real
  response_format :: string

text \<open>
  The outcome of the call: \<^verbatim>\<open>fetch\<close> rejects (no connection, for example) with an error
  message, or resolves to a response with its \<^verbatim>\<open>ok\<close> flag and with what \<^verbatim>\<open>r.json()\<close>
  does: it rejects with an error message when the body is not JSON, or resolves to the value.
\<close>

datatype json_outcome = JsonRejected string | JsonValue json

datatype fetch_outcome = FetchRejected string | FetchResponse bool json_outcome

text \<open>
  The exports of \<^verbatim>\<open>@/lib/pricing\<close>, which is not among the sources: they are parameters.
  \<^verbatim>\<open>SERVICE_RATES_PER_SQFT\<close> is given by what reading \<^verbatim>\<open>SERVICE_RATES_PER_SQFT[service]\<close>
  yields.
\<close>

record pricing =
  SERVICE_RATES_PER_SQFT :: "string \<Rightarrow> jsval"
  MIN_JOB_FEE :: jsnum
  COMPLEXITY_MULTIPLIER :: "jsnum \<Rightarrow> jsnum"

text \<open>
  The body of a response with status 200: the object the handler passes to
  \<^verbatim>\<open>NextResponse.json\<close>. (Serialised, a field that holds \<^verbatim>\<open>NaN\<close> or an infinity reads
  \<^verbatim>\<open>null\<close>, and a field that holds a function is left out.)
\<close>

record estimate =
  service :: string
  area_sqft :: jsval
  complexity :: jsnum
  rate :: jsval
  complexity_factor :: jsnum
  total :: jsnum
  "notes" :: string
  images_analyzed :: nat
  estimation_method :: string

text \<open>A response: the estimate with status 200, or a status and an error message.\<close>

datatype response = Ok200 estimate | ErrorResponse nat string

subsection \<open>The handler\<close>

text \<open>Line 13: \<^verbatim>\<open>String(formData.get("service") || "house")\<close>.\<close>

fun service_of :: "form_entry option \<Rightarrow> string" where
  "service_of None = ''house''"
| "service_of (Some (TextEntry s)) = (if s = [] then ''house'' else s)"
| "service_of (Some (FileEntry f)) = ''[object File]''"

text \<open>Line 21: \<^verbatim>\<open>!OPENAI_API_KEY\<close> holds for an unset and for an empty variable.\<close>

fun key_missing :: "string option \<Rightarrow> bool" where
  "key_missing None = True"
| "key_missing (Some k) = (k = [])"

text \<open>Line 65: the template \<^verbatim>\<open>Bearer ${OPENAI_API_KEY}\<close>.\<close>

fun bearer :: "string option \<Rightarrow> string" where
  "bearer None = ''Bearer undefined''"
| "bearer (Some k) = ''Bearer '' @ k"

text \<open>Lines 28 to 31: the data URL of one image.\<close>

definition data_url :: "platform \<Rightarrow> uploaded_file \<Rightarrow> string" where
  "data_url pf f =
     ''data:'' @ (if file_type f = [] then ''image/jpeg'' else file_type f)
       @ '';base64,'' @ base64 pf (file_bytes f)"

definition systemPrompt :: string where
  \<open>systemPrompt =
     ''You are an estimator for an exterior cleaning company in Jonesboro, Arkansas.'' @ [CHR 0x0A] @
     ''Analyze residential/exterior property photos and output a conservative, *numeric* estimate of:'' @ [CHR 0x0A] @
     ''- VISIBLE exterior surface area in square feet (house siding/windows/roof or concrete depending on service)'' @ [CHR 0x0A] @
     ''- Complexity score from 1 (very simple) to 5 (very complex). Complexity increases with multiple stories, architectural details, obstructions, steep roof pitch, heavy staining, etc.'' @ [CHR 0x0A] @
     ''Return STRICT JSON like: {"area_sqft": <number>, "complexity": <number>, "notes": "<short reason>"}.'' @ [CHR 0x0A] @
     ''If the scene is not a property exterior, use best judgment from visible context.''\<close>

definition userPrompt :: "string \<Rightarrow> string" where
  "userPrompt service_name =
     ''Service type: '' @ service_name @ ''.'' @ [CHR 0x0A] @
     ''From ALL provided images, estimate total *cleanable* area in square feet visible (do not overestimate) and a complexity 1-5.'' @ [CHR 0x0A] @
     ''Keep JSON short. Do not include anything else.''"

text \<open>Lines 46 to 68: the request sent to the inference API.\<close>

definition build_call :: "string option \<Rightarrow> string \<Rightarrow> string list \<Rightarrow> fetch_call" where
  "build_call api_key service_name dataUrls =
     \<lparr> url = ''https://api.openai.com/v1/chat/completions'',
       http_method = ''POST'',
       content_type = ''application/json'',
       authorization = bearer api_key,
       model_name = ''gpt-4o-mini'',
       system_content = systemPrompt,
       user_text = userPrompt service_name,
       image_urls = dataUrls,
       temperature = 0.2,
       response_format = ''json_object'' \<rparr>"

text \<open>
  Lines 80 to 86: reading \<^verbatim>\<open>baseAreaByService[service]\<close>. The table is an object literal, so
  a key that names a member of \<^verbatim>\<open>Object.prototype\<close> reads the inherited member.
\<close>

definition Object_prototype_names :: "string list" where
  "Object_prototype_names =
     [''constructor'', ''__defineGetter__'', ''__defineSetter__'', ''hasOwnProperty'',
      ''__lookupGetter__'', ''__lookupSetter__'', ''isPrototypeOf'', ''propertyIsEnumerable'',
      ''toString'', ''valueOf'', ''__proto__'', ''toLocaleString'']"

definition baseAreaByService :: "string \<Rightarrow> jsval" where
  "baseAreaByService k =
     (if k = ''house'' then Number (Num 1500)
      else if k = ''windows'' then Number (Num 800)
      else if k = ''roof'' then Number (Num 1200)
      else if k = ''driveway'' then Number (Num 400)
      else if k = ''gutters'' then Number (Num 200)
      else if k \<in> set Object_prototype_names then Inherited k
      else Undefined)"

text \<open>What the two branches of line 75 assign: area, complexity, notes and the method tag.\<close>

record inference =
  inf_area_sqft :: jsval
  inf_complexity :: jsnum
  inf_notes :: string
  inf_method :: string

text \<open>Lines 76 to 91: the Smart Estimator.\<close>

definition smart_estimate :: "string \<Rightarrow> inference" where
  "smart_estimate service_name =
     \<lparr> inf_area_sqft =
         (if truthy_val (baseAreaByService service_name) then baseAreaByService service_name
          else Number (Num 1000)),
       inf_complexity = Num 2.5,
       inf_notes = ''Smart Estimator used - AI analysis temporarily unavailable. Estimate based on typical property size for this service type.'',
       inf_method = ''smart'' \<rparr>"

text \<open>
  The message of the \<^verbatim>\<open>TypeError\<close> that Node raises when a property of \<^verbatim>\<open>null\<close> is read.
\<close>

definition null_read :: "string \<Rightarrow> string" where
  "null_read name =
     ''Cannot read properties of null (reading '' @ [CHR 0x27] @ name @ [CHR 0x27] @ '')''"

text \<open>
  Line 94: the chain \<^verbatim>\<open>out.choices?.[0]?.message?.content\<close>, for \<^verbatim>\<open>out\<close> other than
  \<^verbatim>\<open>null\<close>; \<open>None\<close> is \<^verbatim>\<open>undefined\<close>.
\<close>

definition choices_content :: "json \<Rightarrow> json option" where
  "choices_content out =
     optional
       (optional (optional (get_property out ''choices'') get_index0)
          (\<lambda>c. get_property c ''message''))
       (\<lambda>m. get_property m ''content'')"

text \<open>Line 94: \<^verbatim>\<open>content = ... || "{}"\<close>.\<close>

definition content_of :: "json \<Rightarrow> json" where
  "content_of out = or_else (choices_content out) (JString ''{}'')"

text \<open>Lines 95 and 96: \<^verbatim>\<open>JSON.parse(content)\<close>, an empty object when it throws.\<close>

definition parse_content :: "platform \<Rightarrow> json \<Rightarrow> json" where
  "parse_content pf content =
     (case JSON_parse pf (ToString (NumberToString pf) content) of
        None \<Rightarrow> JObject []
      | Some parsed \<Rightarrow> parsed)"

text \<open>
  Lines 93 to 101: the estimate of the model. \<open>Inl\<close> is the message of an exception:
  reading \<^verbatim>\<open>out.choices\<close> or \<^verbatim>\<open>parsed.area_sqft\<close> throws when the value is \<^verbatim>\<open>null\<close>.
\<close>

definition ai_estimate :: "platform \<Rightarrow> json \<Rightarrow> string + inference" where
  "ai_estimate pf out =
     (if out = JNull then Inl (null_read ''choices'')
      else
        let parsed = parse_content pf (content_of out) in
        if parsed = JNull then Inl (null_read ''area_sqft'')
        else Inr
          \<lparr> inf_area_sqft =
              Number (Math_max (Num 0)
                (ToNumber pf (or_else (get_property parsed ''area_sqft'') (JNumber (Num 0))))),
            inf_complexity =
              Math_min (Num 5) (Math_max (Num 1)
                (ToNumber pf (or_else (get_property parsed ''complexity'') (JNumber (Num 2.5))))),
            inf_notes =
              ToString (NumberToString pf)
                (or_else (get_property parsed ''notes'') (JString ''AI-computed from uploaded photos.'')),
            inf_method = ''ai'' \<rparr>)"

text \<open>Lines 70 to 102: both branches, from the outcome of \<^verbatim>\<open>fetch\<close>.\<close>

fun infer :: "platform \<Rightarrow> string \<Rightarrow> fetch_outcome \<Rightarrow> string + inference" where
  "infer pf service_name (FetchRejected msg) = Inl msg"
| "infer pf service_name (FetchResponse False body) = Inr (smart_estimate service_name)"
| "infer pf service_name (FetchResponse True (JsonRejected msg)) = Inl msg"
| "infer pf service_name (FetchResponse True (JsonValue out)) = ai_estimate pf out"

text \<open>Line 107: \<^verbatim>\<open>Math.round(subtotal * 100) / 100\<close>.\<close>

definition round_total :: "platform \<Rightarrow> jsnum \<Rightarrow> jsnum" where
  "round_total pf subtotal = js_div pf (Math_round (js_mul pf subtotal (Num 100))) (Num 100)"

text \<open>Lines 104 to 112: the price and the body of the response.\<close>

definition quote ::
  "platform \<Rightarrow> pricing \<Rightarrow> string \<Rightarrow> nat \<Rightarrow> inference \<Rightarrow> estimate" where
  "quote pf pr service_name n_images est =
     (let rate_v = (case SERVICE_RATES_PER_SQFT pr service_name of
                      Undefined \<Rightarrow> Number (Num 0.15)
                    | v \<Rightarrow> v);
          factor = COMPLEXITY_MULTIPLIER pr (inf_complexity est);
          subtotal = Math_max (MIN_JOB_FEE pr)
            (js_mul pf (js_mul pf (to_number (inf_area_sqft est)) (to_number rate_v)) factor)
      in \<lparr> service = service_name,
           area_sqft = inf_area_sqft est,
           complexity = inf_complexity est,
           rate = rate_v,
           complexity_factor = factor,
           total = round_total pf subtotal,
           notes = inf_notes est,
           images_analyzed = n_images,
           estimation_method = inf_method est \<rparr>)"

text \<open>Lines 113 to 115: the handler of exceptions.\<close>

definition caught :: "string \<Rightarrow> response" where
  "caught msg = ErrorResponse 500 (if msg = [] then ''Unexpected error'' else msg)"

text \<open>
  The handler. It returns the calls to \<^verbatim>\<open>fetch\<close> it made and its response; \<open>reply\<close>
  is the outcome of the call, read only when the call is made. The line the handler writes to
  the console on the fallback is not part of either.
\<close>

definition POST ::
  "platform \<Rightarrow> pricing \<Rightarrow> string option \<Rightarrow> fetch_outcome \<Rightarrow> request
     \<Rightarrow> fetch_call list \<times> response" where
  "POST pf pr OPENAI_API_KEY reply req =
     (case req of
        BodyRejected msg \<Rightarrow> ([], caught msg)
      | FormData formData \<Rightarrow>
          let service_name = service_of (get_service formData);
              images = getAll_images formData
          in
          if images = [] then ([], ErrorResponse 400 ''No images uploaded'')
          else if key_missing OPENAI_API_KEY
          then ([], ErrorResponse 500 ''Missing OPENAI_API_KEY on server'')
          else
            let dataUrls = map (data_url pf) images in
            ([build_call OPENAI_API_KEY service_name dataUrls],
             case infer pf service_name reply of
               Inl msg \<Rightarrow> caught msg
             | Inr est \<Rightarrow> Ok200 (quote pf pr service_name (length dataUrls) est)))"

subsection \<open>The quantities the specification names\<close>

text \<open>The static lookup of the Smart Estimator as the specification lists it.\<close>

definition static_lookup :: "string \<Rightarrow> real" where
  "static_lookup k =
     (if k = ''house'' then 1500 else if k = ''windows'' then 800 else if k = ''roof'' then 1200
      else if k = ''driveway'' then 400 else if k = ''gutters'' then 200 else 1000)"

text \<open>A complexity in the interval from 1 to 5.\<close>

fun in_range_1_5 :: "jsnum \<Rightarrow> bool" where
  "in_range_1_5 (Num x) = (1 \<le> x \<and> x \<le> 5)"
| "in_range_1_5 v = False"

text \<open>A non-negative number.\<close>

fun non_negative :: "jsval \<Rightarrow> bool" where
  "non_negative (Number (Num x)) = (0 \<le> x)"
| "non_negative (Number Infinity) = True"
| "non_negative v = False"



subsection \<open>Sample inputs\<close>

text \<open>
  Concrete inputs for the examples below. The pricing module is not among the sources, so
  \<open>sample_pricing\<close> holds sample values. \<open>sample_platform\<close> tabulates the built-in
  functions on the arguments the examples pass, where it agrees with Node: \<^verbatim>\<open>JSON.parse\<close>
  on four JSON texts and on the malformed text \<^verbatim>\<open>not json\<close>, \<^verbatim>\<open>Number\<close> on the strings
  \<^verbatim>\<open>high\<close> and \<^verbatim>\<open>large\<close>, which are not numeric, and base64 on the single byte 0. No example
  reads the table anywhere else, and no example states a product or a quotient of finite
  numbers. The theorems that are not examples hold for every platform and every pricing.
\<close>

definition sample_image :: uploaded_file where
  "sample_image = \<lparr> file_type = ''image/png'', file_bytes = [0] \<rparr>"

definition sample_form :: form_data where
  "sample_form =
     \<lparr> get_service = Some (TextEntry ''driveway''), getAll_images = [sample_image] \<rparr>"

definition sample_pricing :: pricing where
  "sample_pricing =
     \<lparr> SERVICE_RATES_PER_SQFT =
         (\<lambda>k. if k = ''house'' then Number (Num 0.25)
              else if k = ''driveway'' then Number (Num 0.2)
              else Undefined),
       MIN_JOB_FEE = Num 99,
       COMPLEXITY_MULTIPLIER =
         (\<lambda>c. case c of
                Num x \<Rightarrow> if x \<le> 2 then Num 1 else if x \<le> 4 then Num 1.25 else Num 1.5
              | _ \<Rightarrow> c) \<rparr>"

definition sample_content :: string where
  \<open>sample_content = ''{"area_sqft":333.333,"complexity":7,"notes":"two stories"}''\<close>

definition sample_platform :: platform where
  \<open>sample_platform =
     \<lparr> JSON_parse =
         (\<lambda>s. if s = ''{}'' then Some (JObject [])
              else if s = ''{"complexity":"high"}''
                then Some (JObject [(''complexity'', JString ''high'')])
              else if s = ''{"area_sqft":"large"}''
                then Some (JObject [(''area_sqft'', JString ''large'')])
              else if s = sample_content
                then Some (JObject [(''area_sqft'', JNumber (Num 333.333)),
                                    (''complexity'', JNumber (Num 7)),
                                    (''notes'', JString ''two stories'')])
              else None),
       StringToNumber = (\<lambda>s. if s = [] then Num 0 else NaN),
       NumberToString = (\<lambda>n. if n = Num 0 then ''0'' else ''NaN''),
       base64 = (\<lambda>bytes. if bytes = [] then [] else ''AA==''),
       double_mul = (\<lambda>x y. Num (x * y)),
       double_div = (\<lambda>x y. Num (x / y)) \<rparr>\<close>

text \<open>An OK reply of the inference API whose first choice carries the given content.\<close>

definition reply_with :: "string \<Rightarrow> fetch_outcome" where
  "reply_with content =
     FetchResponse True (JsonValue
       (JObject [(''choices'',
          JArray [JObject [(''message'', JObject [(''content'', JString content)])]])]))"

section \<open>Properties of the handler\<close>

subsection \<open>Auxiliary facts\<close>

lemmas sample_defs =
  sample_platform_def sample_pricing_def sample_form_def sample_image_def reply_with_def
  sample_content_def

lemmas handler_defs =
  POST_def quote_def smart_estimate_def ai_estimate_def content_of_def choices_content_def
  parse_content_def round_total_def caught_def baseAreaByService_def Object_prototype_names_def
  Let_def

lemma Math_max_NaN_right [simp]: "Math_max a NaN = NaN"
  by (cases a) simp_all

lemma Math_min_NaN_right [simp]: "Math_min a NaN = NaN"
  by (cases a) simp_all

lemma js_mul_NaN_right [simp]: "js_mul pf a NaN = NaN"
  by (cases a) simp_all

text \<open>With an image and the credential, the response is decided by the inference.\<close>

lemma POST_valid:
  "getAll_images fd \<noteq> [] \<Longrightarrow> \<not> key_missing key \<Longrightarrow>
   snd (POST pf pr key reply (FormData fd)) =
     (case infer pf (service_of (get_service fd)) reply of
        Inl msg \<Rightarrow> caught msg
      | Inr est \<Rightarrow>
          Ok200 (quote pf pr (service_of (get_service fd)) (length (getAll_images fd)) est))"
  by (simp add: POST_def Let_def split: sum.splits)

text \<open>A response with status 200 comes from a form with an image, the credential and an estimate.\<close>

lemma POST_Ok200D:
  "snd (POST pf pr key reply req) = Ok200 b \<Longrightarrow>
   \<exists>fd est. req = FormData fd \<and> getAll_images fd \<noteq> [] \<and> \<not> key_missing key \<and>
     infer pf (service_of (get_service fd)) reply = Inr est \<and>
     b = quote pf pr (service_of (get_service fd)) (length (getAll_images fd)) est"
  by (auto simp: POST_def Let_def caught_def split: request.splits if_splits sum.splits)

text \<open>The two clamps do their work on every number but \<^verbatim>\<open>NaN\<close>.\<close>

lemma clamp_in_range: "v \<noteq> NaN \<Longrightarrow> in_range_1_5 (Math_min (Num 5) (Math_max (Num 1) v))"
  by (cases v) simp_all

lemma max0_non_negative: "v \<noteq> NaN \<Longrightarrow> non_negative (Number (Math_max (Num 0) v))"
  by (cases v) simp_all

lemma infer_complexity:
  "infer pf sv reply = Inr est \<Longrightarrow> inf_complexity est = NaN \<or> in_range_1_5 (inf_complexity est)"
proof (cases "(pf, sv, reply)" rule: infer.cases)
  case (4 pf' sv' out)
  assume "infer pf sv reply = Inr est"
  with 4 have "ai_estimate pf out = Inr est" by simp
  then obtain v where "inf_complexity est = Math_min (Num 5) (Math_max (Num 1) v)"
    by (auto simp: ai_estimate_def Let_def split: if_splits)
  then show ?thesis using clamp_in_range [of v] by (cases "v = NaN") auto
qed (auto simp: smart_estimate_def)

lemma infer_ai_area:
  "infer pf sv reply = Inr est \<Longrightarrow> inf_method est = ''ai'' \<Longrightarrow>
   inf_area_sqft est = Number NaN \<or> non_negative (inf_area_sqft est)"
proof (cases "(pf, sv, reply)" rule: infer.cases)
  case (4 pf' sv' out)
  assume "infer pf sv reply = Inr est"
  with 4 have "ai_estimate pf out = Inr est" by simp
  then obtain v where "inf_area_sqft est = Number (Math_max (Num 0) v)"
    by (auto simp: ai_estimate_def Let_def split: if_splits)
  then show ?thesis using max0_non_negative [of v] by (cases "v = NaN") auto
qed (auto simp: smart_estimate_def)


subsection \<open>The price (C1)\<close>



text \<open>
  In every response with status 200 the rate is the entry of the rate table for the service,
  0.15 when the read yields \<^verbatim>\<open>undefined\<close>, the complexity factor is the multiplier of the
  complexity, and the total is computed from the fields of the response as lines 106 and 107
  say, in the arithmetic of the platform.
\<close>

lemma total_from_fields:
  assumes "snd (POST pf pr key reply req) = Ok200 b"
  shows "\<exists>fd. req = FormData fd \<and> service b = service_of (get_service fd) \<and>
     rate b = (case SERVICE_RATES_PER_SQFT pr (service b) of
                 Undefined \<Rightarrow> Number (Num 0.15) | v \<Rightarrow> v) \<and>
     complexity_factor b = COMPLEXITY_MULTIPLIER pr (complexity b) \<and>
     total b = round_total pf (Math_max (MIN_JOB_FEE pr)
       (js_mul pf (js_mul pf (to_number (area_sqft b)) (to_number (rate b)))
          (complexity_factor b)))"
proof -
  from POST_Ok200D [OF assms] obtain fd est where
    req: "req = FormData fd" and
    b: "b = quote pf pr (service_of (get_service fd)) (length (getAll_images fd)) est"
    by blast
  show ?thesis
    unfolding req b by (simp add: quote_def Let_def)
qed

subsection \<open>The Smart Estimator (C2)\<close>

text \<open>
  C2 says that a valid request whose inference call returns a non-OK response is answered with
  status 200, method "smart", complexity 2.5 and the area of the static lookup, 1000 for a
  service the lookup does not list. The handler does so for every service but the names that an
  object literal inherits from \<^verbatim>\<open>Object.prototype\<close>: for the service \<^verbatim>\<open>constructor\<close> the
  read \<^verbatim>\<open>baseAreaByService[service]\<close> yields the inherited function, which is truthy, so the
  default of 1000 is not taken, the area of the response is that function and the total is
  \<^verbatim>\<open>NaN\<close>.
\<close>

theorem smart_estimator_inherited_key:
  "\<exists>b. snd (POST pf pr (Some ''sk-test'') (FetchResponse False body)
           (FormData \<lparr> get_service = Some (TextEntry ''constructor''),
              getAll_images = [img] \<rparr>))
         = Ok200 b \<and>
       estimation_method b = ''smart'' \<and> area_sqft b = Inherited ''constructor'' \<and>
       total b = NaN"
  by (simp add: handler_defs)

text \<open>For every other service the response is as C2 says.\<close>

lemma smart_estimator_lookup:
  assumes "getAll_images fd \<noteq> []" and "\<not> key_missing key"
    and "service_of (get_service fd) \<notin> set Object_prototype_names"
  shows "\<exists>b. snd (POST pf pr key (FetchResponse False body) (FormData fd)) = Ok200 b \<and>
     estimation_method b = ''smart'' \<and>
     area_sqft b = Number (Num (static_lookup (service_of (get_service fd)))) \<and>
     complexity b = Num 2.5"
  using assms
  by (simp add: POST_valid quote_def smart_estimate_def baseAreaByService_def static_lookup_def
      Let_def)

subsection \<open>Failures of the inference call (C3)\<close>

text \<open>
  C3 says that with images and the credential every failure of the inference call is masked by
  the fallback and the caller receives status 200. The handler falls back only when
  \<^verbatim>\<open>fetch\<close> resolves to a response that is not OK, although its comment on line 76 announces
  the fallback "when AI fails". When \<^verbatim>\<open>fetch\<close> rejects, as it does when the API cannot be
  reached, the exception reaches the handler of line 113 and the response has status 500 with
  the message of the exception.
\<close>

theorem fetch_rejection_is_surfaced:
  "snd (POST sample_platform sample_pricing (Some ''sk-test'') (FetchRejected ''fetch failed'')
         (FormData sample_form))
   = ErrorResponse 500 ''fetch failed''"
  by (simp add: POST_def caught_def sample_form_def)

text \<open>A response that is not OK is masked, whatever the service and whatever it carries.\<close>

lemma not_ok_is_masked:
  "getAll_images fd \<noteq> [] \<Longrightarrow> \<not> key_missing key \<Longrightarrow>
   \<exists>b. snd (POST pf pr key (FetchResponse False body) (FormData fd)) = Ok200 b \<and>
       estimation_method b = ''smart''"
  by (simp add: POST_valid quote_def smart_estimate_def Let_def)

subsection \<open>Malformed or absent content (C4)\<close>




subsection \<open>The missing credential (C5)\<close>

text \<open>
  C5 as stated fails: the handler looks for images before it looks for the credential, so a
  request without images is answered with status 400 also when the credential is missing.
\<close>

theorem missing_key_after_images_counterexample:
  "key_missing None \<and>
   snd (POST sample_platform sample_pricing None (reply_with sample_content)
     (FormData \<lparr> get_service = None, getAll_images = [] \<rparr>))
   = ErrorResponse 400 ''No images uploaded''"
  by (simp add: POST_def)

text \<open>
  C5, amended. A request whose form has at least one image is answered, when
  \<^verbatim>\<open>OPENAI_API_KEY\<close> is unset or empty, with status 500 and the error
  "Missing OPENAI_API_KEY on server", and the handler makes no call to the inference API.
\<close>

theorem missing_key_500:
  "getAll_images fd \<noteq> [] \<Longrightarrow> key_missing key \<Longrightarrow>
   POST pf pr key reply (FormData fd)
     = ([], ErrorResponse 500 ''Missing OPENAI_API_KEY on server'')"
  by (simp add: POST_def Let_def)

theorem missing_key_500_witness:
  "getAll_images sample_form \<noteq> [] \<and> key_missing (Some []) \<and>
   POST sample_platform sample_pricing (Some []) (reply_with sample_content)
     (FormData sample_form)
     = ([], ErrorResponse 500 ''Missing OPENAI_API_KEY on server'')"
proof -
  have a: "getAll_images sample_form \<noteq> []" by (simp add: sample_form_def)
  have b: "key_missing (Some [])" by simp
  from missing_key_500 [OF a b] a b show ?thesis by blast
qed

subsection \<open>No images (C6)\<close>

text \<open>
  C6 as stated fails: a request whose body \<^verbatim>\<open>req.formData()\<close> cannot read, a JSON body for
  example, contains no image part, and is answered with status 500 and the message of the
  exception, not with status 400.
\<close>

theorem unreadable_form_counterexample:
  "POST sample_platform sample_pricing (Some ''sk-test'') (reply_with sample_content)
     (BodyRejected ''Failed to parse body as FormData.'')
   = ([], ErrorResponse 500 ''Failed to parse body as FormData.'')"
  by (simp add: POST_def caught_def)

text \<open>
  C6, amended. A request whose body resolves to a form with no part named \<^verbatim>\<open>images\<close> is
  answered with status 400 and the error "No images uploaded", and the handler makes no call to
  the inference API.
\<close>

theorem no_images_400:
  "getAll_images fd = [] \<Longrightarrow>
   POST pf pr key reply (FormData fd) = ([], ErrorResponse 400 ''No images uploaded'')"
  by (simp add: POST_def)

theorem no_images_400_witness:
  "getAll_images \<lparr> get_service = Some (TextEntry ''roof''), getAll_images = [] \<rparr> = [] \<and>
   POST sample_platform sample_pricing (Some ''sk-test'') (reply_with sample_content)
     (FormData \<lparr> get_service = Some (TextEntry ''roof''), getAll_images = [] \<rparr>)
   = ([], ErrorResponse 400 ''No images uploaded'')"
proof -
  have h: "getAll_images \<lparr> get_service = Some (TextEntry ''roof''), getAll_images = [] \<rparr> = []"
    by simp
  from h no_images_400 [OF h] show ?thesis by (rule conjI)
qed

subsection \<open>The complexity (C7)\<close>

text \<open>
  C7 says that the complexity of the response lies between 1 and 5 whatever the model returned,
  non-numeric values included. The clamp of line 99 lets \<^verbatim>\<open>NaN\<close> through: when the parsed
  content has for its complexity a non-empty string that \<^verbatim>\<open>Number\<close> converts to \<^verbatim>\<open>NaN\<close>,
  the response has status 200 and its complexity is \<^verbatim>\<open>NaN\<close>.
\<close>

theorem non_numeric_complexity:
  assumes "getAll_images fd \<noteq> []" and "\<not> key_missing key"
    and "out \<noteq> JNull"
    and "parse_content pf (content_of out) = JObject props"
    and "map_of props ''complexity'' = Some (JString s)" and "s \<noteq> []"
    and "StringToNumber pf s = NaN"
  shows "\<exists>b. snd (POST pf pr key (FetchResponse True (JsonValue out)) (FormData fd)) = Ok200 b \<and>
     complexity b = NaN \<and> \<not> in_range_1_5 (complexity b)"
  using assms by (simp add: POST_valid ai_estimate_def quote_def Let_def)

text \<open>An example: the content gives the complexity as the string \<^verbatim>\<open>high\<close>.\<close>

theorem non_numeric_complexity_witness:
  \<open>getAll_images sample_form \<noteq> [] \<and> \<not> key_missing (Some ''sk-test'') \<and>
   StringToNumber sample_platform ''high'' = NaN \<and>
   (\<exists>b. snd (POST sample_platform sample_pricing (Some ''sk-test'')
            (reply_with ''{"complexity":"high"}'') (FormData sample_form)) = Ok200 b \<and>
     complexity b = NaN \<and> \<not> in_range_1_5 (complexity b))\<close>
proof -
  let ?out = \<open>JObject [(''choices'',
     JArray [JObject [(''message'',
       JObject [(''content'', JString ''{"complexity":"high"}'')])]])]\<close>
  have a: "getAll_images sample_form \<noteq> []" by (simp add: sample_form_def)
  have b: "\<not> key_missing (Some ''sk-test'')" by simp
  have c: "?out \<noteq> JNull" by simp
  have d: "parse_content sample_platform (content_of ?out)
      = JObject [(''complexity'', JString ''high'')]"
    by (simp add: parse_content_def content_of_def choices_content_def sample_platform_def)
  have e: "map_of [(''complexity'', JString ''high'')] ''complexity'' = Some (JString ''high'')"
    by simp
  have f: "''high'' \<noteq> []" by simp
  have g: "StringToNumber sample_platform ''high'' = NaN" by (simp add: sample_platform_def)
  from non_numeric_complexity [OF a b c d e f g, of sample_pricing] a b g
  show ?thesis by (simp add: reply_with_def)
qed

text \<open>In every response with status 200 the complexity lies between 1 and 5 unless it is \<^verbatim>\<open>NaN\<close>.\<close>

lemma complexity_in_range_unless_NaN:
  assumes "snd (POST pf pr key reply req) = Ok200 b"
  shows "complexity b = NaN \<or> in_range_1_5 (complexity b)"
proof -
  from POST_Ok200D [OF assms] obtain fd :: form_data and est where
    "infer pf (service_of (get_service fd)) reply = Inr est" and
    b: "b = quote pf pr (service_of (get_service fd)) (length (getAll_images fd)) est"
    by blast
  from this(1) have "inf_complexity est = NaN \<or> in_range_1_5 (inf_complexity est)"
    by (rule infer_complexity)
  then show ?thesis unfolding b by (simp add: quote_def Let_def)
qed

subsection \<open>The area (C8)\<close>

text \<open>
  C8 says that the area of a response of the AI path is a non-negative number whatever the
  model returned. \<^verbatim>\<open>Math.max\<close> on line 98 lets \<^verbatim>\<open>NaN\<close> through: when the parsed content has for
  its area a non-empty string that \<^verbatim>\<open>Number\<close> converts to \<^verbatim>\<open>NaN\<close>, the response has status
  200 and its area is \<^verbatim>\<open>NaN\<close>.
\<close>

theorem non_numeric_area:
  assumes "getAll_images fd \<noteq> []" and "\<not> key_missing key"
    and "out \<noteq> JNull"
    and "parse_content pf (content_of out) = JObject props"
    and "map_of props ''area_sqft'' = Some (JString s)" and "s \<noteq> []"
    and "StringToNumber pf s = NaN"
  shows "\<exists>b. snd (POST pf pr key (FetchResponse True (JsonValue out)) (FormData fd)) = Ok200 b \<and>
     estimation_method b = ''ai'' \<and> area_sqft b = Number NaN \<and> \<not> non_negative (area_sqft b)"
  using assms by (simp add: POST_valid ai_estimate_def quote_def Let_def)

text \<open>An example: the content gives the area as the string \<^verbatim>\<open>large\<close>.\<close>

theorem non_numeric_area_witness:
  \<open>getAll_images sample_form \<noteq> [] \<and> \<not> key_missing (Some ''sk-test'') \<and>
   StringToNumber sample_platform ''large'' = NaN \<and>
   (\<exists>b. snd (POST sample_platform sample_pricing (Some ''sk-test'')
            (reply_with ''{"area_sqft":"large"}'') (FormData sample_form)) = Ok200 b \<and>
     estimation_method b = ''ai'' \<and> area_sqft b = Number NaN \<and>
     \<not> non_negative (area_sqft b))\<close>
proof -
  let ?out = \<open>JObject [(''choices'',
     JArray [JObject [(''message'',
       JObject [(''content'', JString ''{"area_sqft":"large"}'')])]])]\<close>
  have a: "getAll_images sample_form \<noteq> []" by (simp add: sample_form_def)
  have b: "\<not> key_missing (Some ''sk-test'')" by simp
  have c: "?out \<noteq> JNull" by simp
  have d: "parse_content sample_platform (content_of ?out)
      = JObject [(''area_sqft'', JString ''large'')]"
    by (simp add: parse_content_def content_of_def choices_content_def sample_platform_def)
  have e: "map_of [(''area_sqft'', JString ''large'')] ''area_sqft'' = Some (JString ''large'')"
    by simp
  have f: "''large'' \<noteq> []" by simp
  have g: "StringToNumber sample_platform ''large'' = NaN" by (simp add: sample_platform_def)
  from non_numeric_area [OF a b c d e f g, of sample_pricing] a b g
  show ?thesis by (simp add: reply_with_def)
qed

text \<open>On the AI path the area is a non-negative number unless it is \<^verbatim>\<open>NaN\<close>.\<close>

lemma ai_area_non_negative_unless_NaN:
  assumes "snd (POST pf pr key reply req) = Ok200 b" and "estimation_method b = ''ai''"
  shows "area_sqft b = Number NaN \<or> non_negative (area_sqft b)"
proof -
  from POST_Ok200D [OF assms(1)] obtain fd :: form_data and est where
    i: "infer pf (service_of (get_service fd)) reply = Inr est" and
    b: "b = quote pf pr (service_of (get_service fd)) (length (getAll_images fd)) est"
    by blast
  from assms(2) have "inf_method est = ''ai''" unfolding b by (simp add: quote_def Let_def)
  with i have "inf_area_sqft est = Number NaN \<or> non_negative (inf_area_sqft est)"
    by (rule infer_ai_area)
  then show ?thesis unfolding b by (simp add: quote_def Let_def)
qed

subsection \<open>The empty service (C9)\<close>

text \<open>
  C9. A request whose service field is the empty string is handled as a request without a
  service field: the calls made and the response are the same. With an image and the
  credential, the service is house everywhere:
  \<^item> the one call to the inference API is the call built for house, and its prompt names house;
  \<^item> the response is the one inferred and priced for house;
  \<^item> a priced response echoes the service house and carries the rate of house, 0.15 when the
    table has none;
  \<^item> on the fallback the response has status 200, echoes house and carries the rate of house and
    the area 1500 that the lookup lists for house.
\<close>

theorem empty_service_is_house:
  "POST pf pr key reply (FormData (fd\<lparr>get_service := Some (TextEntry [])\<rparr>))
     = POST pf pr key reply (FormData (fd\<lparr>get_service := None\<rparr>)) \<and>
   (getAll_images fd \<noteq> [] \<and> \<not> key_missing key \<longrightarrow>
      fst (POST pf pr key reply (FormData (fd\<lparr>get_service := Some (TextEntry [])\<rparr>)))
        = [build_call key ''house'' (map (data_url pf) (getAll_images fd))] \<and>
      map user_text
          (fst (POST pf pr key reply (FormData (fd\<lparr>get_service := Some (TextEntry [])\<rparr>))))
        = [userPrompt ''house''] \<and>
      snd (POST pf pr key reply (FormData (fd\<lparr>get_service := Some (TextEntry [])\<rparr>)))
        = (case infer pf ''house'' reply of
             Inl msg \<Rightarrow> caught msg
           | Inr est \<Rightarrow> Ok200 (quote pf pr ''house'' (length (getAll_images fd)) est)) \<and>
      service (quote pf pr ''house'' n est) = ''house'' \<and>
      rate (quote pf pr ''house'' n est)
        = (case SERVICE_RATES_PER_SQFT pr ''house'' of
             Undefined \<Rightarrow> Number (Num 0.15) | v \<Rightarrow> v) \<and>
      (\<exists>b. snd (POST pf pr key (FetchResponse False body)
                 (FormData (fd\<lparr>get_service := Some (TextEntry [])\<rparr>))) = Ok200 b \<and>
           service b = ''house'' \<and>
           rate b = (case SERVICE_RATES_PER_SQFT pr ''house'' of
                       Undefined \<Rightarrow> Number (Num 0.15) | v \<Rightarrow> v) \<and>
           area_sqft b = Number (Num 1500) \<and>
           estimation_method b = ''smart''))"
proof -
  let ?fd = "fd\<lparr>get_service := Some (TextEntry [])\<rparr>"
  have same: "POST pf pr key reply (FormData ?fd)
     = POST pf pr key reply (FormData (fd\<lparr>get_service := None\<rparr>))"
    by (simp add: POST_def)
  have valid: "fst (POST pf pr key reply (FormData ?fd))
        = [build_call key ''house'' (map (data_url pf) (getAll_images fd))] \<and>
      map user_text (fst (POST pf pr key reply (FormData ?fd))) = [userPrompt ''house''] \<and>
      snd (POST pf pr key reply (FormData ?fd))
        = (case infer pf ''house'' reply of
             Inl msg \<Rightarrow> caught msg
           | Inr est \<Rightarrow> Ok200 (quote pf pr ''house'' (length (getAll_images fd)) est)) \<and>
      service (quote pf pr ''house'' n est) = ''house'' \<and>
      rate (quote pf pr ''house'' n est)
        = (case SERVICE_RATES_PER_SQFT pr ''house'' of
             Undefined \<Rightarrow> Number (Num 0.15) | v \<Rightarrow> v) \<and>
      (\<exists>b. snd (POST pf pr key (FetchResponse False body) (FormData ?fd)) = Ok200 b \<and>
           service b = ''house'' \<and>
           rate b = (case SERVICE_RATES_PER_SQFT pr ''house'' of
                       Undefined \<Rightarrow> Number (Num 0.15) | v \<Rightarrow> v) \<and>
           area_sqft b = Number (Num 1500) \<and>
           estimation_method b = ''smart'')"
    if img: "getAll_images fd \<noteq> []" and k: "\<not> key_missing key"
  proof -
    have calls: "fst (POST pf pr key reply (FormData ?fd))
        = [build_call key ''house'' (map (data_url pf) (getAll_images fd))]"
      using img k by (simp add: POST_def Let_def)
    have prompt: "map user_text (fst (POST pf pr key reply (FormData ?fd)))
        = [userPrompt ''house'']"
      unfolding calls by (simp add: build_call_def)
    have resp: "snd (POST pf pr key reply (FormData ?fd))
        = (case infer pf ''house'' reply of
             Inl msg \<Rightarrow> caught msg
           | Inr est \<Rightarrow> Ok200 (quote pf pr ''house'' (length (getAll_images fd)) est))"
      using img k by (simp add: POST_valid split: sum.splits)
    have echo: "service (quote pf pr ''house'' n est) = ''house''"
      by (simp add: quote_def Let_def)
    have rate_house: "rate (quote pf pr ''house'' n est)
        = (case SERVICE_RATES_PER_SQFT pr ''house'' of
             Undefined \<Rightarrow> Number (Num 0.15) | v \<Rightarrow> v)"
      by (simp add: quote_def Let_def)
    have fallback: "\<exists>b. snd (POST pf pr key (FetchResponse False body) (FormData ?fd)) = Ok200 b \<and>
           service b = ''house'' \<and>
           rate b = (case SERVICE_RATES_PER_SQFT pr ''house'' of
                       Undefined \<Rightarrow> Number (Num 0.15) | v \<Rightarrow> v) \<and>
           area_sqft b = Number (Num 1500) \<and>
           estimation_method b = ''smart''"
      using img k
      by (simp add: POST_valid quote_def smart_estimate_def baseAreaByService_def Let_def)
    from calls prompt resp echo rate_house fallback show ?thesis by (intro conjI)
  qed
  from same valid show ?thesis by blast
qed

text \<open>
  An example: the form of \<open>sample_form\<close> with an empty service field, and a response of the
  inference API that is not OK. The handler makes the call for house and answers with status
  200, the service house, the rate 0.25 that \<open>sample_pricing\<close> lists for house, and the
  area 1500.
\<close>

theorem empty_service_is_house_witness:
  "getAll_images sample_form \<noteq> [] \<and> \<not> key_missing (Some ''sk-test'') \<and>
   fst (POST sample_platform sample_pricing (Some ''sk-test'') (FetchResponse False (JsonRejected []))
         (FormData (sample_form\<lparr>get_service := Some (TextEntry [])\<rparr>)))
     = [build_call (Some ''sk-test'') ''house''
          (map (data_url sample_platform) (getAll_images sample_form))] \<and>
   map user_text
       (fst (POST sample_platform sample_pricing (Some ''sk-test'')
          (FetchResponse False (JsonRejected []))
          (FormData (sample_form\<lparr>get_service := Some (TextEntry [])\<rparr>))))
     = [userPrompt ''house''] \<and>
   (\<exists>b. snd (POST sample_platform sample_pricing (Some ''sk-test'')
              (FetchResponse False (JsonRejected []))
              (FormData (sample_form\<lparr>get_service := Some (TextEntry [])\<rparr>))) = Ok200 b \<and>
        service b = ''house'' \<and> rate b = Number (Num 0.25) \<and>
        area_sqft b = Number (Num 1500) \<and> estimation_method b = ''smart'')"
proof -
  have a: "getAll_images sample_form \<noteq> []" by (simp add: sample_form_def)
  have b: "\<not> key_missing (Some ''sk-test'')" by simp
  have r: "(case SERVICE_RATES_PER_SQFT sample_pricing ''house'' of
              Undefined \<Rightarrow> Number (Num 0.15) | v \<Rightarrow> v) = Number (Num 0.25)"
    by (simp add: sample_pricing_def)
  from empty_service_is_house [of sample_platform sample_pricing "Some ''sk-test''"
      "FetchResponse False (JsonRejected [])" sample_form _ _ "JsonRejected []"] a b
  show ?thesis unfolding r by blast
qed

subsection \<open>Determinism (C10)\<close>

text \<open>
  C10. Two invocations with the same service, the same bytes in the same images, the
  credential present in both or missing in both, and the same outcome of the inference call
  give the same response: the same status and the same body. The media types of the images and
  the value of the credential do not matter.
\<close>

theorem POST_deterministic:
  assumes "service_of (get_service fd1) = service_of (get_service fd2)"
    and "map file_bytes (getAll_images fd1) = map file_bytes (getAll_images fd2)"
    and "key_missing key1 = key_missing key2"
  shows "snd (POST pf pr key1 reply (FormData fd1)) = snd (POST pf pr key2 reply (FormData fd2))"
proof -
  from assms(2) have len: "length (getAll_images fd1) = length (getAll_images fd2)"
    by (rule map_eq_imp_length_eq)
  then have emp: "(getAll_images fd1 = []) = (getAll_images fd2 = [])" by auto
  show ?thesis
    using assms(1,3) len emp by (simp add: POST_def Let_def split: sum.splits)
qed

text \<open>An example: the two requests differ in the media type of the image and in the key.\<close>

theorem POST_deterministic_witness:
  "service_of (get_service sample_form)
     = service_of (get_service \<lparr> get_service = Some (TextEntry ''driveway''),
         getAll_images = [\<lparr> file_type = ''image/jpeg'', file_bytes = [0] \<rparr>] \<rparr>) \<and>
   map file_bytes (getAll_images sample_form)
     = map file_bytes (getAll_images \<lparr> get_service = Some (TextEntry ''driveway''),
         getAll_images = [\<lparr> file_type = ''image/jpeg'', file_bytes = [0] \<rparr>] \<rparr>) \<and>
   key_missing (Some ''sk-test'') = key_missing (Some ''sk-other'') \<and>
   snd (POST sample_platform sample_pricing (Some ''sk-test'') (reply_with sample_content)
          (FormData sample_form))
     = snd (POST sample_platform sample_pricing (Some ''sk-other'') (reply_with sample_content)
          (FormData \<lparr> get_service = Some (TextEntry ''driveway''),
             getAll_images = [\<lparr> file_type = ''image/jpeg'', file_bytes = [0] \<rparr>] \<rparr>))"
proof -
  let ?fd2 = "\<lparr> get_service = Some (TextEntry ''driveway''),
         getAll_images = [\<lparr> file_type = ''image/jpeg'', file_bytes = [0] \<rparr>] \<rparr>"
  have a: "service_of (get_service sample_form) = service_of (get_service ?fd2)"
    by (simp add: sample_form_def)
  have b: "map file_bytes (getAll_images sample_form) = map file_bytes (getAll_images ?fd2)"
    by (simp add: sample_form_def sample_image_def)
  have c: "key_missing (Some ''sk-test'') = key_missing (Some ''sk-other'')" by simp
  from a b c POST_deterministic [OF a b c] show ?thesis by (intro conjI)
qed

end
